theory Spec2Isabelle
  imports Main "HOL-Library.Word"
begin

section \<open>Values, errors and frames\<close>

text \<open>
  The two scripts do no arithmetic of their own: the four inputs are put into a frame, the
  frame is handed to a loaded model object, and the first element of what comes back is
  returned. A Python float and a NumPy float64 are both IEEE binary64, so a scalar is
  modelled by its 64 bits; two results are bit-identical exactly when they are equal.
\<close>

type_synonym float64 = "64 word"


text \<open>
  The exceptions the scripts can meet: those of \<^verbatim>\<open>joblib.load\<close> on a missing file or
  on a file that holds no model, those of frame construction and indexing, and whatever a
  model object's \<^verbatim>\<open>predict\<close> raises (named by its class when it is none of the others).
\<close>

datatype error =
    FileNotFoundError
  | UnpicklingError
  | EOFError
  | KeyError
  | ValueError
  | IndexError
  | TypeError
  | OtherError string

text \<open>A data frame: the column names and the rows.\<close>

record DataFrame =
  columns :: "string list"
  data :: "float64 list list"

text \<open>
  \<^verbatim>\<open>pd.DataFrame(rows, columns=names)\<close> raises ValueError when a row does not have one
  value per column name.
\<close>

definition pd_DataFrame :: "float64 list list \<Rightarrow> string list \<Rightarrow> error + DataFrame" where
  "pd_DataFrame rows names =
     (if list_all (\<lambda>r. length r = length names) rows
      then Inr \<lparr>columns = names, data = rows\<rparr>
      else Inl ValueError)"

text \<open>\<^verbatim>\<open>a[0]\<close> on the array a model returns: IndexError when the array is empty.\<close>

definition getitem0 :: "float64 list \<Rightarrow> error + float64" where
  "getitem0 a = (case a of [] \<Rightarrow> Inl IndexError | x # _ \<Rightarrow> Inr x)"

text \<open>\<^verbatim>\<open>float(x)\<close> of a NumPy float64: the Python float with the same bits.\<close>

definition py_float :: "float64 \<Rightarrow> float64" where
  "py_float x = x"

section \<open>Model artifacts\<close>

text \<open>
  A loaded model is an object of a third-party library. The scripts use one thing of it:
  \<^verbatim>\<open>predict\<close>, which takes a frame and returns an array of predictions or raises. The
  object may keep state of its own, so it is modelled as its memory together with the
  function behind \<^verbatim>\<open>predict\<close>, which reads the memory and returns the new one.
\<close>

record 's artifact =
  memory :: 's
  predict_fn :: "'s \<Rightarrow> DataFrame \<Rightarrow> (error + float64 list) \<times> 's"

definition predict :: "'s artifact \<Rightarrow> DataFrame \<Rightarrow> (error + float64 list) \<times> 's artifact" where
  "predict a df = (case predict_fn a (memory a) df of (r, s') \<Rightarrow> (r, a\<lparr>memory := s'\<rparr>))"

section \<open>gradioReg\_app.py\<close>

text \<open>
  The module's globals after import: the loaded model \<^verbatim>\<open>linear\<close>. The four arguments
  of the function come from the number fields of the form, as Python floats.
\<close>

record 's gradioReg_app =
  linear :: "'s artifact"

definition model_filename :: string where
  "model_filename = ''linear_regression_model.pkl''"

text \<open>
  \<^verbatim>\<open>predict_gld_price(SPX, USO, SLV, EURUSD)\<close>: build the one-row frame, call
  \<^verbatim>\<open>linear.predict\<close>, return \<^verbatim>\<open>float(predicted_price[0])\<close>. The result is the value or
  the exception, with the globals as the call leaves them.
\<close>

definition predict_gld_price ::
  "'s gradioReg_app \<Rightarrow> float64 \<Rightarrow> float64 \<Rightarrow> float64 \<Rightarrow> float64
     \<Rightarrow> (error + float64) \<times> 's gradioReg_app" where
  "predict_gld_price g SPX USO SLV EURUSD =
     (case pd_DataFrame [[SPX, USO, SLV, EURUSD]] [''SPX'', ''USO'', ''SLV'', ''EUR/USD''] of
        Inl e \<Rightarrow> (Inl e, g)
      | Inr features_df \<Rightarrow>
          (case predict (linear g) features_df of
             (Inl e, a) \<Rightarrow> (Inl e, g\<lparr>linear := a\<rparr>)
           | (Inr predicted_price, a) \<Rightarrow>
               (case getitem0 predicted_price of
                  Inl e \<Rightarrow> (Inl e, g\<lparr>linear := a\<rparr>)
                | Inr p \<Rightarrow> (Inr (py_float p), g\<lparr>linear := a\<rparr>))))"

section \<open>Comparaison\_app.py\<close>

record 's Comparaison_app =
  linear_regressor :: "'s artifact"
  forest_regressor :: "'s artifact"

definition linear_model_filename :: string where
  "linear_model_filename = ''linear_regression_model.pkl''"

definition forest_model_filename :: string where
  "forest_model_filename = ''forest_regressor_model.pkl''"

text \<open>
  \<^verbatim>\<open>compare_models(SPX, USO, SLV, EURUSD)\<close>: the frame is built once; then
  \<^verbatim>\<open>linear_regressor.predict\<close>, then \<^verbatim>\<open>forest_regressor.predict\<close>, and only in the
  return statement the two arrays are indexed, the linear one first.
\<close>

definition compare_models ::
  "'s Comparaison_app \<Rightarrow> float64 \<Rightarrow> float64 \<Rightarrow> float64 \<Rightarrow> float64
     \<Rightarrow> (error + float64 \<times> float64) \<times> 's Comparaison_app" where
  "compare_models c SPX USO SLV EURUSD =
     (case pd_DataFrame [[SPX, USO, SLV, EURUSD]] [''SPX'', ''USO'', ''SLV'', ''EUR/USD''] of
        Inl e \<Rightarrow> (Inl e, c)
      | Inr features_df \<Rightarrow>
          (case predict (linear_regressor c) features_df of
             (Inl e, a) \<Rightarrow> (Inl e, c\<lparr>linear_regressor := a\<rparr>)
           | (Inr linear_predicted_price, a) \<Rightarrow>
               (case predict (forest_regressor c) features_df of
                  (Inl e, b) \<Rightarrow> (Inl e, c\<lparr>linear_regressor := a, forest_regressor := b\<rparr>)
                | (Inr forest_predicted_price, b) \<Rightarrow>
                    (case getitem0 linear_predicted_price of
                       Inl e \<Rightarrow> (Inl e, c\<lparr>linear_regressor := a, forest_regressor := b\<rparr>)
                     | Inr p \<Rightarrow>
                         (case getitem0 forest_predicted_price of
                            Inl e \<Rightarrow> (Inl e, c\<lparr>linear_regressor := a, forest_regressor := b\<rparr>)
                          | Inr q \<Rightarrow>
                              (Inr (py_float p, py_float q),
                               c\<lparr>linear_regressor := a, forest_regressor := b\<rparr>))))))"

section \<open>Loading the artifacts and serving requests\<close>

text \<open>
  A model file holds a pickled model object, or bytes from which \<^verbatim>\<open>joblib.load\<close> cannot
  build one. Which exception the load then raises depends on the bytes (IndexError on text
  that is no pickle, EOFError on an empty file, UnpicklingError, KeyError and others), so
  such a file is modelled by the exception its load raises. The file system maps a path to
  what is stored there; with no file at the path the load raises FileNotFoundError.
\<close>

datatype 's pkl = Pickle "'s artifact" | Unloadable error

type_synonym 's filesystem = "string \<rightharpoonup> 's pkl"

definition joblib_load :: "'s filesystem \<Rightarrow> string \<Rightarrow> error + 's artifact" where
  "joblib_load fs filename =
     (case fs filename of
        None \<Rightarrow> Inl FileNotFoundError
      | Some (Unloadable e) \<Rightarrow> Inl e
      | Some (Pickle a) \<Rightarrow> Inr a)"

text \<open>
  The module-level statements of each script: an exception there ends the process before
  \<^verbatim>\<open>main\<close> is reached. In Comparaison\_app.py the linear model is loaded first.
\<close>

definition gradioReg_load :: "'s filesystem \<Rightarrow> error + 's gradioReg_app" where
  "gradioReg_load fs =
     (case joblib_load fs model_filename of
        Inl e \<Rightarrow> Inl e
      | Inr a \<Rightarrow> Inr \<lparr>linear = a\<rparr>)"

definition Comparaison_load :: "'s filesystem \<Rightarrow> error + 's Comparaison_app" where
  "Comparaison_load fs =
     (case joblib_load fs linear_model_filename of
        Inl e \<Rightarrow> Inl e
      | Inr a \<Rightarrow>
          (case joblib_load fs forest_model_filename of
             Inl e \<Rightarrow> Inl e
           | Inr b \<Rightarrow> Inr \<lparr>linear_regressor = a, forest_regressor = b\<rparr>))"

text \<open>
  \<^verbatim>\<open>main\<close> binds the function to the button of the form: every click calls it with the
  four widget values, in order. A request whose call raises is answered with the error,
  and the form goes on serving.
\<close>

type_synonym request = "float64 \<times> float64 \<times> float64 \<times> float64"

fun gradioReg_main ::
  "'s gradioReg_app \<Rightarrow> request list \<Rightarrow> (error + float64) list \<times> 's gradioReg_app" where
  "gradioReg_main g [] = ([], g)"
| "gradioReg_main g ((SPX, USO, SLV, EURUSD) # rest) =
     (case predict_gld_price g SPX USO SLV EURUSD of
        (r, g1) \<Rightarrow> (case gradioReg_main g1 rest of (rs, g2) \<Rightarrow> (r # rs, g2)))"

fun Comparaison_main ::
  "'s Comparaison_app \<Rightarrow> request list
     \<Rightarrow> (error + float64 \<times> float64) list \<times> 's Comparaison_app" where
  "Comparaison_main c [] = ([], c)"
| "Comparaison_main c ((SPX, USO, SLV, EURUSD) # rest) =
     (case compare_models c SPX USO SLV EURUSD of
        (r, c1) \<Rightarrow> (case Comparaison_main c1 rest of (rs, c2) \<Rightarrow> (r # rs, c2)))"

text \<open>A run of each script: \<open>Inl e\<close> when the import raised \<open>e\<close>, else what \<^verbatim>\<open>main\<close> served.\<close>

definition gradioReg_script ::
  "'s filesystem \<Rightarrow> request list \<Rightarrow> error + (error + float64) list \<times> 's gradioReg_app" where
  "gradioReg_script fs requests =
     (case gradioReg_load fs of
        Inl e \<Rightarrow> Inl e
      | Inr g \<Rightarrow> Inr (gradioReg_main g requests))"

definition Comparaison_script ::
  "'s filesystem \<Rightarrow> request list
     \<Rightarrow> error + (error + float64 \<times> float64) list \<times> 's Comparaison_app" where
  "Comparaison_script fs requests =
     (case Comparaison_load fs of
        Inl e \<Rightarrow> Inl e
      | Inr c \<Rightarrow> Inr (Comparaison_main c requests))"

section \<open>Observing and constraining an artifact\<close>

text \<open>
  To see what a function hands to a model, the model is wrapped in a spy: an artifact that
  behaves as the one it wraps and also keeps, in order, every frame its \<^verbatim>\<open>predict\<close> has
  been called with.
\<close>

definition spy :: "DataFrame list \<Rightarrow> 's artifact \<Rightarrow> (DataFrame list \<times> 's) artifact" where
  "spy log a =
     \<lparr>memory = (log, memory a),
      predict_fn = (\<lambda>(l, s) df. case predict_fn a s df of (r, s') \<Rightarrow> (r, (l @ [df], s')))\<rparr>"

definition seen :: "(DataFrame list \<times> 's) artifact \<Rightarrow> DataFrame list" where
  "seen a = fst (memory a)"

text \<open>The row both functions build from their four arguments.\<close>

abbreviation features_df :: "float64 \<Rightarrow> float64 \<Rightarrow> float64 \<Rightarrow> float64 \<Rightarrow> DataFrame" where
  "features_df SPX USO SLV EURUSD \<equiv>
     \<lparr>columns = [''SPX'', ''USO'', ''SLV'', ''EUR/USD''], data = [[SPX, USO, SLV, EURUSD]]\<rparr>"

text \<open>Some concrete artifacts: one that always returns the same array, one that always raises.\<close>

definition constant_model :: "float64 list \<Rightarrow> unit artifact" where
  "constant_model ys = \<lparr>memory = (), predict_fn = (\<lambda>s df. (Inr ys, s))\<rparr>"

definition raising_model :: "error \<Rightarrow> unit artifact" where
  "raising_model e = \<lparr>memory = (), predict_fn = (\<lambda>s df. (Inl e, s))\<rparr>"

text \<open>A model with state: it answers with the number of calls it has had, then counts one more.\<close>

definition counting_model :: "nat \<Rightarrow> nat artifact" where
  "counting_model n = \<lparr>memory = n, predict_fn = (\<lambda>k df. (Inr [of_nat k], Suc k))\<rparr>"

text \<open>
  An artifact is read-only when its \<^verbatim>\<open>predict\<close> never changes its memory, as the
  regressors of the artifact library are after training.
\<close>

definition read_only :: "'s artifact \<Rightarrow> bool" where
  "read_only a = (\<forall>s df. snd (predict_fn a s df) = s)"





section \<open>Helper lemmas\<close>

lemma predict_spy:
  "predict (spy log a) df = (fst (predict a df), spy (log @ [df]) (snd (predict a df)))"
  by (simp add: predict_def spy_def split: prod.splits)

lemma seen_spy: "seen (spy log a) = log"
  by (simp add: seen_def spy_def)

lemma pd_DataFrame_row:
  "pd_DataFrame [[SPX, USO, SLV, EURUSD]] [''SPX'', ''USO'', ''SLV'', ''EUR/USD''] =
     Inr (features_df SPX USO SLV EURUSD)"
  by (simp add: pd_DataFrame_def)

lemma predict_constant_model:
  "predict (constant_model ys) df = (Inr ys, constant_model ys)"
  by (simp add: predict_def constant_model_def)

lemma predict_raising_model:
  "predict (raising_model e) df = (Inl e, raising_model e)"
  by (simp add: predict_def raising_model_def)

lemma predict_counting_model:
  "predict (counting_model n) df = (Inr [of_nat n], counting_model (Suc n))"
  by (simp add: predict_def counting_model_def)

lemma read_only_predict: "read_only a \<Longrightarrow> snd (predict a df) = a"
  by (simp add: read_only_def predict_def split: prod.splits)
     (metis artifact.surjective artifact.update_convs(1) snd_conv)

lemma read_only_constant_model: "read_only (constant_model ys)"
  by (simp add: read_only_def constant_model_def)

lemma predict_gld_price_read_only:
  "read_only (linear g) \<Longrightarrow> snd (predict_gld_price g SPX USO SLV EURUSD) = g"
  using read_only_predict [of "linear g" "features_df SPX USO SLV EURUSD"]
  by (auto simp: predict_gld_price_def pd_DataFrame_row split: sum.splits prod.splits)

lemma compare_models_read_only:
  "read_only (linear_regressor c) \<Longrightarrow> read_only (forest_regressor c) \<Longrightarrow>
     snd (compare_models c SPX USO SLV EURUSD) = c"
  using read_only_predict [of "linear_regressor c" "features_df SPX USO SLV EURUSD"]
    read_only_predict [of "forest_regressor c" "features_df SPX USO SLV EURUSD"]
  by (auto simp: compare_models_def pd_DataFrame_row split: sum.splits prod.splits)

lemma gradioReg_main_read_only:
  "read_only (linear g) \<Longrightarrow> snd (gradioReg_main g history) = g"
proof (induction history)
  case Nil
  then show ?case by simp
next
  case (Cons r rest)
  obtain SPX USO SLV EURUSD where r: "r = (SPX, USO, SLV, EURUSD)"
    by (cases r) auto
  from Cons.prems have "snd (predict_gld_price g SPX USO SLV EURUSD) = g"
    by (rule predict_gld_price_read_only)
  with Cons show ?case
    by (auto simp: r split: prod.splits)
qed

lemma Comparaison_main_read_only:
  "read_only (linear_regressor c) \<Longrightarrow> read_only (forest_regressor c) \<Longrightarrow>
     snd (Comparaison_main c history) = c"
proof (induction history)
  case Nil
  then show ?case by simp
next
  case (Cons r rest)
  obtain SPX USO SLV EURUSD where r: "r = (SPX, USO, SLV, EURUSD)"
    by (cases r) auto
  from Cons.prems have "snd (compare_models c SPX USO SLV EURUSD) = c"
    by (rule compare_models_read_only)
  with Cons show ?case
    by (auto simp: r split: prod.splits)
qed

lemma scripts_load_same_linear_artifact:
  "gradioReg_load fs = Inr g \<Longrightarrow> Comparaison_load fs = Inr c \<Longrightarrow> linear g = linear_regressor c"
  by (auto simp: gradioReg_load_def Comparaison_load_def model_filename_def
        linear_model_filename_def split: sum.splits)




section \<open>The feature vector\<close>

text \<open>
  C4 (as amended). Both functions hand their model one frame of one row, whose columns are
  named SPX, USO, SLV and EUR/USD in this order and hold the four arguments in the order
  they were passed: the value of the parameter EURUSD goes under the name EUR/USD. In
  \<open>compare_models\<close> the forest model is handed that frame whenever the linear model's call
  has returned.
\<close>

theorem feature_vector_columns:
  "seen (linear (snd (predict_gld_price \<lparr>linear = spy [] a\<rparr> SPX USO SLV EURUSD))) =
     [\<lparr>columns = [''SPX'', ''USO'', ''SLV'', ''EUR/USD''], data = [[SPX, USO, SLV, EURUSD]]\<rparr>]
   \<and> seen (linear_regressor (snd (compare_models
         \<lparr>linear_regressor = spy [] a, forest_regressor = spy [] b\<rparr> SPX USO SLV EURUSD))) =
     [\<lparr>columns = [''SPX'', ''USO'', ''SLV'', ''EUR/USD''], data = [[SPX, USO, SLV, EURUSD]]\<rparr>]
   \<and> seen (forest_regressor (snd (compare_models
         \<lparr>linear_regressor = spy [] a, forest_regressor = spy [] b\<rparr> SPX USO SLV EURUSD))) =
     (if isl (fst (predict a (features_df SPX USO SLV EURUSD))) then []
      else [\<lparr>columns = [''SPX'', ''USO'', ''SLV'', ''EUR/USD''],
             data = [[SPX, USO, SLV, EURUSD]]\<rparr>])"
proof -
  have p: "seen (linear (snd (predict_gld_price \<lparr>linear = spy [] a\<rparr> SPX USO SLV EURUSD))) =
      [features_df SPX USO SLV EURUSD]"
    by (simp add: predict_gld_price_def pd_DataFrame_row predict_spy seen_spy
          split: sum.splits prod.splits)
  have l: "seen (linear_regressor (snd (compare_models
        \<lparr>linear_regressor = spy [] a, forest_regressor = spy [] b\<rparr> SPX USO SLV EURUSD))) =
      [features_df SPX USO SLV EURUSD]"
    by (simp add: compare_models_def pd_DataFrame_row predict_spy seen_spy
          split: sum.splits prod.splits)
  have f: "seen (forest_regressor (snd (compare_models
        \<lparr>linear_regressor = spy [] a, forest_regressor = spy [] b\<rparr> SPX USO SLV EURUSD))) =
      (if isl (fst (predict a (features_df SPX USO SLV EURUSD))) then []
       else [features_df SPX USO SLV EURUSD])"
    by (simp add: compare_models_def pd_DataFrame_row predict_spy seen_spy
          split: sum.splits prod.splits)
  from p l f show ?thesis by simp
qed

text \<open>
  The claim as written names the fourth field EURUSD; the frame the code builds has no
  column of that name.
\<close>

theorem feature_vector_columns_counterexample:
  "map columns (seen (linear (snd (predict_gld_price
       \<lparr>linear = spy [] (constant_model [0])\<rparr> 0 0 0 0)))) \<noteq>
     [[''SPX'', ''USO'', ''SLV'', ''EURUSD'']]"
  by (simp add: predict_gld_price_def pd_DataFrame_row predict_spy seen_spy
        predict_constant_model getitem0_def)


section \<open>The comparison\<close>

text \<open>
  C1. Whatever requests the form has served before, a call of \<open>compare_models\<close> that
  returns a pair returns, first, element 0 of what the linear model's \<^verbatim>\<open>predict\<close> gave for
  the row and, second, element 0 of what the forest model's \<^verbatim>\<open>predict\<close> gave for it.
\<close>

theorem compare_models_order:
  assumes "compare_models (snd (Comparaison_main c history)) SPX USO SLV EURUSD = (Inr (x, y), c')"
  shows "\<exists>xs ys.
      fst (predict (linear_regressor (snd (Comparaison_main c history)))
             (features_df SPX USO SLV EURUSD)) = Inr (x # xs)
    \<and> fst (predict (forest_regressor (snd (Comparaison_main c history)))
             (features_df SPX USO SLV EURUSD)) = Inr (y # ys)"
  using assms
  by (auto simp: compare_models_def pd_DataFrame_row getitem0_def py_float_def
        split: sum.splits prod.splits list.splits)

theorem compare_models_order_witness:
  "compare_models
     (snd (Comparaison_main
        \<lparr>linear_regressor = counting_model 10, forest_regressor = counting_model 20\<rparr>
        [(0, 0, 0, 0)])) 1 2 3 4 =
     (Inr (11, 21), \<lparr>linear_regressor = counting_model 12, forest_regressor = counting_model 22\<rparr>)
   \<and> (\<exists>xs ys.
      fst (predict (linear_regressor (snd (Comparaison_main
             \<lparr>linear_regressor = counting_model 10, forest_regressor = counting_model 20\<rparr>
             [(0, 0, 0, 0)])))
             (features_df 1 2 3 4)) = Inr (11 # xs)
    \<and> fst (predict (forest_regressor (snd (Comparaison_main
             \<lparr>linear_regressor = counting_model 10, forest_regressor = counting_model 20\<rparr>
             [(0, 0, 0, 0)])))
             (features_df 1 2 3 4)) = Inr (21 # ys))"
proof -
  have h: "compare_models
     (snd (Comparaison_main
        \<lparr>linear_regressor = counting_model 10, forest_regressor = counting_model 20\<rparr>
        [(0, 0, 0, 0)])) 1 2 3 4 =
     (Inr (11, 21), \<lparr>linear_regressor = counting_model 12, forest_regressor = counting_model 22\<rparr>)"
    by (simp add: compare_models_def pd_DataFrame_row predict_counting_model getitem0_def
          py_float_def)
  from h compare_models_order [OF h] show ?thesis by blast
qed

text \<open>
  C2. \<open>compare_models\<close> builds one frame and calls both models with it: when the linear
  model's call returns, each model has been called exactly once more, and the frame the
  forest model received is the frame the linear model received, the single row of the four
  arguments.
\<close>

theorem compare_models_same_frame:
  assumes "fst (predict a (features_df SPX USO SLV EURUSD)) = Inr xs"
  shows "seen (linear_regressor (snd (compare_models
            \<lparr>linear_regressor = spy la a, forest_regressor = spy lb b\<rparr> SPX USO SLV EURUSD))) =
           la @ [features_df SPX USO SLV EURUSD]
       \<and> seen (forest_regressor (snd (compare_models
            \<lparr>linear_regressor = spy la a, forest_regressor = spy lb b\<rparr> SPX USO SLV EURUSD))) =
           lb @ [features_df SPX USO SLV EURUSD]"
  using assms
  by (simp add: compare_models_def pd_DataFrame_row predict_spy seen_spy
        split: sum.splits prod.splits)

theorem compare_models_same_frame_witness:
  "fst (predict (constant_model [7]) (features_df 1 2 3 4)) = Inr [7]
   \<and> seen (linear_regressor (snd (compare_models
        \<lparr>linear_regressor = spy [] (constant_model [7]),
         forest_regressor = spy [] (constant_model [9])\<rparr> 1 2 3 4))) =
       [] @ [features_df 1 2 3 4]
   \<and> seen (forest_regressor (snd (compare_models
        \<lparr>linear_regressor = spy [] (constant_model [7]),
         forest_regressor = spy [] (constant_model [9])\<rparr> 1 2 3 4))) =
       [] @ [features_df 1 2 3 4]"
proof -
  have h: "fst (predict (constant_model [7]) (features_df 1 2 3 4)) = Inr [7]"
    by (simp add: predict_constant_model)
  from h compare_models_same_frame [OF h, of "[]" "[]" "constant_model [9]"]
  show ?thesis by blast
qed

text \<open>
  C7. There is no partial result: when the \<^verbatim>\<open>predict\<close> of either model raises on the row,
  \<open>compare_models\<close> raises, and it returns a pair only when both calls have returned.
\<close>

theorem compare_models_no_partial:
  assumes "isl (fst (predict (linear_regressor c) (features_df SPX USO SLV EURUSD)))
         \<or> isl (fst (predict (forest_regressor c) (features_df SPX USO SLV EURUSD)))"
  shows "isl (fst (compare_models c SPX USO SLV EURUSD))"
  using assms
  by (auto simp: compare_models_def pd_DataFrame_row split: sum.splits prod.splits)

theorem compare_models_no_partial_witness:
  "(isl (fst (predict (linear_regressor
        \<lparr>linear_regressor = constant_model [7], forest_regressor = raising_model ValueError\<rparr>)
        (features_df 1 2 3 4)))
    \<or> isl (fst (predict (forest_regressor
        \<lparr>linear_regressor = constant_model [7], forest_regressor = raising_model ValueError\<rparr>)
        (features_df 1 2 3 4))))
   \<and> isl (fst (compare_models
        \<lparr>linear_regressor = constant_model [7], forest_regressor = raising_model ValueError\<rparr>
        1 2 3 4))"
proof -
  have h: "isl (fst (predict (linear_regressor
        \<lparr>linear_regressor = constant_model [7], forest_regressor = raising_model ValueError\<rparr>)
        (features_df 1 2 3 4)))
    \<or> isl (fst (predict (forest_regressor
        \<lparr>linear_regressor = constant_model [7], forest_regressor = raising_model ValueError\<rparr>)
        (features_df 1 2 3 4)))"
    by (simp add: predict_raising_model)
  from h compare_models_no_partial [OF h] show ?thesis by blast
qed

text \<open>
  C10. The linear model is called first. When its \<^verbatim>\<open>predict\<close> raises, \<open>compare_models\<close>
  raises that very exception and the forest model is left as it was: its \<^verbatim>\<open>predict\<close> is
  not called for this request.
\<close>

theorem compare_models_linear_error_first:
  assumes "fst (predict (linear_regressor c) (features_df SPX USO SLV EURUSD)) = Inl e"
  shows "fst (compare_models c SPX USO SLV EURUSD) = Inl e
       \<and> forest_regressor (snd (compare_models c SPX USO SLV EURUSD)) = forest_regressor c"
  using assms
  by (auto simp: compare_models_def pd_DataFrame_row split: sum.splits prod.splits)

theorem compare_models_linear_error_first_witness:
  "fst (predict (linear_regressor
       \<lparr>linear_regressor = spy [] (raising_model ValueError),
        forest_regressor = spy [] (raising_model TypeError)\<rparr>) (features_df 1 2 3 4)) =
     Inl ValueError
   \<and> fst (compare_models
       \<lparr>linear_regressor = spy [] (raising_model ValueError),
        forest_regressor = spy [] (raising_model TypeError)\<rparr> 1 2 3 4) = Inl ValueError
   \<and> seen (forest_regressor (snd (compare_models
       \<lparr>linear_regressor = spy [] (raising_model ValueError),
        forest_regressor = spy [] (raising_model TypeError)\<rparr> 1 2 3 4))) = []"
proof -
  have h: "fst (predict (linear_regressor
       \<lparr>linear_regressor = spy [] (raising_model ValueError),
        forest_regressor = spy [] (raising_model TypeError)\<rparr>) (features_df 1 2 3 4)) =
     Inl ValueError"
    by (simp add: predict_spy predict_raising_model)
  from h compare_models_linear_error_first [OF h] show ?thesis
    by (simp add: seen_spy)
qed

section \<open>The single predictor against the comparison\<close>

text \<open>
  C3. When \<open>predict_gld_price\<close> and \<open>compare_models\<close> run on the same loaded linear model,
  as they do when both scripts have loaded it from the same file store (lemma
  \<open>scripts_load_same_linear_artifact\<close>), and \<open>compare_models\<close> returns a pair, then
  \<open>predict_gld_price\<close> on the same four inputs returns the first element of that pair.
\<close>

theorem predict_gld_price_is_compare_first:
  assumes "linear g = linear_regressor c"
    and "fst (compare_models c SPX USO SLV EURUSD) = Inr (x, y)"
  shows "fst (predict_gld_price g SPX USO SLV EURUSD) = Inr x"
  using assms
  by (auto simp: compare_models_def predict_gld_price_def pd_DataFrame_row
        split: sum.splits prod.splits)

theorem predict_gld_price_is_compare_first_witness:
  "linear \<lparr>linear = counting_model 5\<rparr> =
     linear_regressor \<lparr>linear_regressor = counting_model 5, forest_regressor = counting_model 8\<rparr>
   \<and> fst (compare_models
        \<lparr>linear_regressor = counting_model 5, forest_regressor = counting_model 8\<rparr> 1 2 3 4) =
       Inr (5, 8)
   \<and> fst (predict_gld_price \<lparr>linear = counting_model 5\<rparr> 1 2 3 4) = Inr 5"
proof -
  have h1: "linear \<lparr>linear = counting_model 5\<rparr> =
     linear_regressor \<lparr>linear_regressor = counting_model 5, forest_regressor = counting_model 8\<rparr>"
    by simp
  have h2: "fst (compare_models
        \<lparr>linear_regressor = counting_model 5, forest_regressor = counting_model 8\<rparr> 1 2 3 4) =
       Inr (5, 8)"
    by (simp add: compare_models_def pd_DataFrame_row predict_counting_model getitem0_def
          py_float_def)
  from h1 h2 predict_gld_price_is_compare_first [OF h1 h2] show ?thesis by blast
qed

section \<open>Determinism\<close>

text \<open>
  C5. Against read-only artifacts, a call of \<open>predict_gld_price\<close> or of \<open>compare_models\<close>
  leaves the globals of its module as they were, so does any sequence of served requests,
  and a second call with the same inputs returns the same bits (or the same exception) as
  the first.
\<close>

theorem calls_deterministic:
  "(read_only (linear g) \<longrightarrow>
      snd (gradioReg_main g history) = g
    \<and> fst (predict_gld_price (snd (predict_gld_price g SPX USO SLV EURUSD)) SPX USO SLV EURUSD) =
        fst (predict_gld_price g SPX USO SLV EURUSD))
 \<and> (read_only (linear_regressor c) \<and> read_only (forest_regressor c) \<longrightarrow>
      snd (Comparaison_main c history) = c
    \<and> fst (compare_models (snd (compare_models c SPX USO SLV EURUSD)) SPX USO SLV EURUSD) =
        fst (compare_models c SPX USO SLV EURUSD))"
  by (simp add: gradioReg_main_read_only Comparaison_main_read_only
        predict_gld_price_read_only compare_models_read_only)

theorem calls_deterministic_witness:
  "read_only (linear \<lparr>linear = constant_model [7]\<rparr>)
 \<and> snd (gradioReg_main \<lparr>linear = constant_model [7]\<rparr> [(1, 2, 3, 4), (0, 0, 0, 0)]) =
      \<lparr>linear = constant_model [7]\<rparr>
 \<and> fst (predict_gld_price (snd (predict_gld_price \<lparr>linear = constant_model [7]\<rparr> 1 2 3 4))
      1 2 3 4) = fst (predict_gld_price \<lparr>linear = constant_model [7]\<rparr> 1 2 3 4)
 \<and> read_only (linear_regressor
      \<lparr>linear_regressor = constant_model [7], forest_regressor = constant_model [9]\<rparr>)
 \<and> read_only (forest_regressor
      \<lparr>linear_regressor = constant_model [7], forest_regressor = constant_model [9]\<rparr>)
 \<and> snd (Comparaison_main
      \<lparr>linear_regressor = constant_model [7], forest_regressor = constant_model [9]\<rparr>
      [(1, 2, 3, 4), (0, 0, 0, 0)]) =
      \<lparr>linear_regressor = constant_model [7], forest_regressor = constant_model [9]\<rparr>
 \<and> fst (compare_models (snd (compare_models
      \<lparr>linear_regressor = constant_model [7], forest_regressor = constant_model [9]\<rparr> 1 2 3 4))
      1 2 3 4) =
    fst (compare_models
      \<lparr>linear_regressor = constant_model [7], forest_regressor = constant_model [9]\<rparr> 1 2 3 4)"
  using calls_deterministic [of "\<lparr>linear = constant_model [7]\<rparr>" "[(1, 2, 3, 4), (0, 0, 0, 0)]"
      1 2 3 4 "\<lparr>linear_regressor = constant_model [7], forest_regressor = constant_model [9]\<rparr>"]
  by (simp add: read_only_constant_model)

text \<open>
  An artifact that changes its memory in \<^verbatim>\<open>predict\<close> is outside that statement: with a
  model that counts its calls, the second of two identical calls returns another value.
\<close>

lemma counting_model_second_call_differs:
  "fst (predict_gld_price (snd (predict_gld_price \<lparr>linear = counting_model 0\<rparr> 1 2 3 4)) 1 2 3 4)
     \<noteq> fst (predict_gld_price \<lparr>linear = counting_model 0\<rparr> 1 2 3 4)"
  by (simp add: predict_gld_price_def pd_DataFrame_row predict_counting_model getitem0_def
        py_float_def)

section \<open>Failure and finiteness\<close>




section \<open>Loading\<close>

text \<open>
  C8. When a model file is missing or holds no model, the script ends at its import with
  the exception that \<^verbatim>\<open>joblib.load\<close> raises on that file (the load errors that the
  specification calls ArtifactLoadError; the code has no class of that name) and
  \<^verbatim>\<open>main\<close> is never reached, so no request is served: the run is that exception alone,
  whatever requests were waiting. Comparaison\_app.py loads the linear file first and needs
  both files.
\<close>

theorem load_failure_serves_nothing:
  "(fs model_filename = None \<longrightarrow> gradioReg_script fs requests = Inl FileNotFoundError)
 \<and> (fs model_filename = Some (Unloadable e) \<longrightarrow> gradioReg_script fs requests = Inl e)
 \<and> (fs linear_model_filename = None \<longrightarrow> Comparaison_script fs requests' = Inl FileNotFoundError)
 \<and> (fs linear_model_filename = Some (Unloadable e) \<longrightarrow>
      Comparaison_script fs requests' = Inl e)
 \<and> (fs linear_model_filename = Some (Pickle a) \<and> fs forest_model_filename = None \<longrightarrow>
      Comparaison_script fs requests' = Inl FileNotFoundError)
 \<and> (fs linear_model_filename = Some (Pickle a)
      \<and> fs forest_model_filename = Some (Unloadable e) \<longrightarrow>
      Comparaison_script fs requests' = Inl e)"
  by (simp add: gradioReg_script_def gradioReg_load_def Comparaison_script_def
        Comparaison_load_def joblib_load_def)

theorem load_failure_serves_nothing_witness:
  "(Map.empty :: unit filesystem) model_filename = None
 \<and> gradioReg_script (Map.empty :: unit filesystem) [(1, 2, 3, 4)] = Inl FileNotFoundError
 \<and> (Map.empty :: unit filesystem) linear_model_filename = None
 \<and> Comparaison_script (Map.empty :: unit filesystem) [(1, 2, 3, 4)] = Inl FileNotFoundError
 \<and> [linear_model_filename \<mapsto> (Unloadable EOFError :: unit pkl)] model_filename =
     Some (Unloadable EOFError)
 \<and> gradioReg_script [linear_model_filename \<mapsto> (Unloadable EOFError :: unit pkl)]
     [(1, 2, 3, 4)] = Inl EOFError
 \<and> Comparaison_script [linear_model_filename \<mapsto> (Unloadable EOFError :: unit pkl)]
     [(1, 2, 3, 4)] = Inl EOFError
 \<and> [linear_model_filename \<mapsto> Pickle (constant_model [7])] forest_model_filename = None
 \<and> Comparaison_script [linear_model_filename \<mapsto> Pickle (constant_model [7])]
     [(1, 2, 3, 4)] = Inl FileNotFoundError
 \<and> [linear_model_filename \<mapsto> Pickle (constant_model [7]),
     forest_model_filename \<mapsto> Unloadable IndexError] forest_model_filename =
     Some (Unloadable IndexError)
 \<and> Comparaison_script [linear_model_filename \<mapsto> Pickle (constant_model [7]),
     forest_model_filename \<mapsto> Unloadable IndexError] [(1, 2, 3, 4)] = Inl IndexError"
  using load_failure_serves_nothing [of "Map.empty :: unit filesystem" "[(1, 2, 3, 4)]"
      EOFError "[(1, 2, 3, 4)]" "constant_model [7]"]
    load_failure_serves_nothing [of "[linear_model_filename \<mapsto> (Unloadable EOFError :: unit pkl)]"
      "[(1, 2, 3, 4)]" EOFError "[(1, 2, 3, 4)]" "constant_model [7]"]
    load_failure_serves_nothing [of "[linear_model_filename \<mapsto> Pickle (constant_model [7])]"
      "[(1, 2, 3, 4)]" EOFError "[(1, 2, 3, 4)]" "constant_model [7]"]
    load_failure_serves_nothing [of "[linear_model_filename \<mapsto> Pickle (constant_model [7]),
      forest_model_filename \<mapsto> Unloadable IndexError]"
      "[(1, 2, 3, 4)]" IndexError "[(1, 2, 3, 4)]" "constant_model [7]"]
  by (simp add: model_filename_def linear_model_filename_def forest_model_filename_def)

end
